theory Spec2Isabelle
  imports Complex_Main
begin

section \<open>The State Record (src/plugin/state-reader.ts, interface BiometricState)\<close>

text \<open>
  JavaScript numbers are modelled as follows: \<open>stress_index\<close> and \<open>confidence\<close> are
  reals, the millisecond timestamps, the validity window and the process id are integers.
  The decimal literals of the source (0.7, 0.25, ...) stand for themselves and arithmetic
  is exact; NaN and the infinities, which JSON cannot carry, are not modelled. The flow
  state is the union of string literals that the interface declares.
\<close>

datatype flow = CALM | NORMAL | STRESSED | DEEP_FLOW | UNKNOWN

record BiometricState =
  stress_index :: real
  flow_state :: flow
  timestamp :: int
  ttl_seconds :: int
  daemon_pid :: int
  confidence :: real
  source :: string

definition MAX_STALENESS_MS :: int where
  "MAX_STALENESS_MS = 60000"

text \<open>\<open>getDefaultState\<close>; its argument is the value that \<open>Date.now()\<close> returns inside it.\<close>

definition getDefaultState :: "int \<Rightarrow> BiometricState" where
  "getDefaultState now =
     \<lparr>stress_index = 0, flow_state = UNKNOWN, timestamp = now, ttl_seconds = 0,
      daemon_pid = - 1, confidence = 0, source = ''default''\<rparr>"

text \<open>
  \<open>isDaemonAlive\<close>. The set \<open>procs\<close> holds the process ids for which
  \<open>process.kill(pid, 0)\<close> returns without throwing.
\<close>

definition isDaemonAlive :: "int set \<Rightarrow> int \<Rightarrow> bool" where
  "isDaemonAlive procs pid =
     (if pid \<le> 0 then False
      else if pid \<in> procs then True
      else False)"

text \<open>
  \<open>validateState\<close>. \<open>now\<close> is the clock reading taken on entry, \<open>now'\<close> the later
  reading taken by \<open>getDefaultState\<close> when a default is substituted.
\<close>

definition validateState :: "int \<Rightarrow> int \<Rightarrow> int set \<Rightarrow> BiometricState \<Rightarrow> BiometricState" where
  "validateState now now' procs state =
     (let age = now - timestamp state in
      if age > MAX_STALENESS_MS then getDefaultState now'
      else if \<not> isDaemonAlive procs (daemon_pid state) then getDefaultState now'
      else state)"

section \<open>Transport: socket first, then file, then defaults\<close>

text \<open>
  A text received from the socket or read from the file is represented by what
  \<open>JSON.parse\<close> makes of it: a syntax error, or a value, which the source casts to the
  interface without inspecting it. The value is taken at that type, with no constraint on
  its fields: the stress index and the confidence of a parsed record may be any numbers.
\<close>

datatype payload = Malformed | Json BiometricState

datatype socket_outcome = SockEnd payload | SockError | SockTimeout

datatype file_outcome = FileText payload | FileReadError

record transport =
  socket_present :: bool
  socket_outcome :: socket_outcome
  file_present :: bool
  file_outcome :: file_outcome

datatype read_error =
    SocketFileDoesNotExist
  | InvalidJSONFromDaemon
  | SocketConnectionError
  | SocketReadTimeout
  | StateFileDoesNotExist
  | FileSystemError
  | JSONSyntaxError

definition readFromSocket :: "transport \<Rightarrow> read_error + BiometricState" where
  "readFromSocket t =
     (if \<not> socket_present t then Inl SocketFileDoesNotExist
      else case socket_outcome t of
             SockEnd Malformed \<Rightarrow> Inl InvalidJSONFromDaemon
           | SockEnd (Json state) \<Rightarrow> Inr state
           | SockError \<Rightarrow> Inl SocketConnectionError
           | SockTimeout \<Rightarrow> Inl SocketReadTimeout)"

definition readFromFile :: "transport \<Rightarrow> read_error + BiometricState" where
  "readFromFile t =
     (if \<not> file_present t then Inl StateFileDoesNotExist
      else case file_outcome t of
             FileReadError \<Rightarrow> Inl FileSystemError
           | FileText Malformed \<Rightarrow> Inl JSONSyntaxError
           | FileText (Json state) \<Rightarrow> Inr state)"

text \<open>
  \<open>readBiometricState\<close>: \<open>Inl\<close> would be an exception leaving the function. \<open>now\<close> and
  \<open>now'\<close> are the first and the second clock reading of the call.
\<close>

definition readBiometricState :: "int \<Rightarrow> int \<Rightarrow> int set \<Rightarrow> transport \<Rightarrow> read_error + BiometricState" where
  "readBiometricState now now' procs t =
     (case readFromSocket t of
        Inr state \<Rightarrow> Inr (validateState now now' procs state)
      | Inl socketError \<Rightarrow>
          (case readFromFile t of
             Inr state \<Rightarrow> Inr (validateState now now' procs state)
           | Inl fileError \<Rightarrow> Inr (getDefaultState now)))"

section \<open>Normalizer and mobile ingestion (src/plugin/api.ts)\<close>

text \<open>
  The request body. An absent field is \<open>None\<close>. The fields \<open>source\<close> and \<open>timestamp\<close> of
  the body are named \<open>source_field\<close> and \<open>timestamp_field\<close> here, since the State Record
  has fields of the same names.
\<close>

record MobileBiometricData =
  heart_rate :: "real option"
  hrv :: "real option"
  source_field :: "string option"
  timestamp_field :: "int option"

text \<open>
  JavaScript truthiness of an optional number, and \<open>v || d\<close> for an optional number and an
  optional string.
\<close>

definition truthy_num :: "real option \<Rightarrow> bool" where
  "truthy_num v = (case v of None \<Rightarrow> False | Some x \<Rightarrow> x \<noteq> 0)"

definition or_int :: "int option \<Rightarrow> int \<Rightarrow> int" where
  "or_int v d = (case v of None \<Rightarrow> d | Some x \<Rightarrow> if x = 0 then d else x)"

definition or_str :: "string option \<Rightarrow> string \<Rightarrow> string" where
  "or_str v d = (case v of None \<Rightarrow> d | Some s \<Rightarrow> if s = [] then d else s)"

definition hrvToStress :: "real \<Rightarrow> real" where
  "hrvToStress h =
     (if h \<ge> 100 then 0.1
      else if h \<ge> 80 then 0.2
      else if h \<ge> 60 then 0.4
      else if h \<ge> 40 then 0.6
      else if h \<ge> 25 then 0.8
      else 0.95)"

definition heartRateToStress :: "real \<Rightarrow> real" where
  "heartRateToStress hr =
     (if hr < 60 then 0.2
      else if hr < 70 then 0.3
      else if hr < 80 then 0.5
      else if hr < 90 then 0.6
      else if hr < 100 then 0.75
      else 0.9)"

definition stressToFlowState :: "real \<Rightarrow> flow" where
  "stressToFlowState stress =
     (if stress < 0.25 then DEEP_FLOW
      else if stress < 0.4 then CALM
      else if stress < 0.65 then NORMAL
      else STRESSED)"

text \<open>\<open>Math.round\<close>: the nearest integer, a half rounded upwards.\<close>

definition Math_round :: "real \<Rightarrow> int" where
  "Math_round x = \<lfloor>x + 1 / 2\<rfloor>"

datatype response =
    Status400
  | Status500
  | Updated real flow string

text \<open>
  \<open>handleBiometricsPost\<close>. \<open>now\<close> is the clock reading, \<open>write_ok\<close> tells whether
  \<open>writeStateFile\<close> completes without throwing. The result is the response and the record
  written to the state file (and pushed to the socket), if any.
\<close>

definition handleBiometricsPost ::
  "int \<Rightarrow> bool \<Rightarrow> MobileBiometricData \<Rightarrow> response \<times> BiometricState option" where
  "handleBiometricsPost now write_ok data =
     (if \<not> truthy_num (hrv data) \<and> \<not> truthy_num (heart_rate data) then (Status400, None)
      else
        let stress =
              (case hrv data of
                 Some h \<Rightarrow> hrvToStress h
               | None \<Rightarrow>
                   (case heart_rate data of
                      Some r \<Rightarrow> heartRateToStress r
                    | None \<Rightarrow> 0.5));
            fl = stressToFlowState stress;
            state =
              \<lparr>stress_index = real_of_int (Math_round (stress * 100)) / 100,
               flow_state = fl,
               timestamp = or_int (timestamp_field data) now,
               ttl_seconds = 300,
               daemon_pid = - 1,
               confidence = (if truthy_num (hrv data) then 0.9 else 0.6),
               source = or_str (source_field data) ''mobile_healthkit''\<rparr>
        in if write_ok
           then (Updated (stress_index state) (flow_state state) (source state), Some state)
           else (Status500, None))"

subsection \<open>The status endpoint's reader\<close>

text \<open>
  \<open>readCurrentState\<close> returns an untyped object; it is modelled as a finite map from field
  names to values. \<open>fields_of\<close> is the object that a State Record serialises to.
\<close>

datatype jsval = JNum real | JStr string

fun flow_name :: "flow \<Rightarrow> string" where
  "flow_name CALM = ''CALM''"
| "flow_name NORMAL = ''NORMAL''"
| "flow_name STRESSED = ''STRESSED''"
| "flow_name DEEP_FLOW = ''DEEP_FLOW''"
| "flow_name UNKNOWN = ''UNKNOWN''"

definition fields_of :: "BiometricState \<Rightarrow> (string \<times> jsval) list" where
  "fields_of s =
     [(''stress_index'', JNum (stress_index s)),
      (''flow_state'', JStr (flow_name (flow_state s))),
      (''timestamp'', JNum (real_of_int (timestamp s))),
      (''ttl_seconds'', JNum (real_of_int (ttl_seconds s))),
      (''daemon_pid'', JNum (real_of_int (daemon_pid s))),
      (''confidence'', JNum (confidence s)),
      (''source'', JStr (source s))]"

definition readCurrentState :: "transport \<Rightarrow> read_error + (string \<times> jsval) list" where
  "readCurrentState t =
     (if file_present t then
        (case file_outcome t of
           FileReadError \<Rightarrow> Inl FileSystemError
         | FileText Malformed \<Rightarrow> Inl JSONSyntaxError
         | FileText (Json state) \<Rightarrow> Inr (fields_of state))
      else
        Inr [(''stress_index'', JNum 0),
             (''flow_state'', JStr ''UNKNOWN''),
             (''timestamp'', JNum 0),
             (''daemon_pid'', JNum (- 1)),
             (''source'', JStr ''none'')])"

section \<open>Precept derivation (src/plugin/index.ts, hook message:pre_process)\<close>

text \<open>
  The advisory note is a template string; it is kept as the list of its pieces, the
  interpolated number unformatted.
\<close>

datatype note_piece = Text string | Num real

record event_context =
  biometrics :: "BiometricState option"
  biometricNote :: "note_piece list option"
  systemPrecepts :: "string list option"

text \<open>\<open>systemPrecepts\<close> is \<open>None\<close> when the context holds no array under that name.\<close>

definition push :: "string \<Rightarrow> string list option \<Rightarrow> string list option" where
  "push d ps = (case ps of None \<Rightarrow> None | Some xs \<Rightarrow> Some (xs @ [d]))"

definition newline :: string where
  "newline = [CHR 0x0A]"

text \<open>The body of the hook once the state has been read.\<close>

definition pre_process :: "BiometricState \<Rightarrow> event_context \<Rightarrow> event_context" where
  "pre_process state ctx =
     (let c1 = ctx\<lparr>biometrics := Some state\<rparr>;
          c2 = (if systemPrecepts c1 = None then c1\<lparr>systemPrecepts := Some []\<rparr> else c1);
          c3 =
            (if stress_index state > 0.7 \<and> confidence state > 0.5 then
               c2\<lparr>systemPrecepts := push ''CONCISE_MODE'' (systemPrecepts c2),
                  biometricNote :=
                    Some [Text (''[SYSTEM: User Biophysical Context]'' @ newline
                                @ ''Stress Level: HIGH (''),
                          Num (stress_index state),
                          Text ('')'' @ newline
                                @ ''Recommendation: Keep responses concise and direct. ''
                                @ ''Avoid follow-up questions unless essential.'')]\<rparr>
             else c2);
          c4 =
            (if flow_state state = DEEP_FLOW \<and> confidence state > 0.5 then
               c3\<lparr>systemPrecepts := push ''NO_INTERRUPT'' (systemPrecepts c3),
                  biometricNote :=
                    Some ((case biometricNote c3 of None \<Rightarrow> [] | Some n \<Rightarrow> n)
                          @ [Text (newline @ ''[SYSTEM: User is in DEEP FLOW state]'' @ newline
                                   @ ''Recommendation: Avoid interrupting with clarifying questions. ''
                                   @ ''Provide complete answers without requiring user input.'')])\<rparr>
             else c3)
      in c4)"

text \<open>The hook itself: read the state, then derive.\<close>

definition message_pre_process ::
  "int \<Rightarrow> int \<Rightarrow> int set \<Rightarrow> transport \<Rightarrow> event_context \<Rightarrow> read_error + event_context" where
  "message_pre_process now now' procs t ctx =
     (case readBiometricState now now' procs t of
        Inl e \<Rightarrow> Inl e
      | Inr state \<Rightarrow> Inr (pre_process state ctx))"

section \<open>The simulate command (function simulate, src/unnamed/part_000)\<close>

record SimulateOptions =
  preset :: "string option"
  stress :: "string option"
  flow :: "string option"

text \<open>
  \<open>PRESETS\<close> is an object literal, and \<open>PRESETS[name]\<close> a property lookup on it. For one
  of its four keys the lookup yields the entry. For a property name that every object
  inherits from \<open>Object.prototype\<close> it yields a function or an object, which is truthy and
  has neither a \<open>stress_index\<close> nor a \<open>flow_state\<close>. For any other name it yields
  \<open>undefined\<close>.
\<close>

definition PRESETS :: "(string \<times> real \<times> string) list" where
  "PRESETS =
     [(''high-stress'', 0.9, ''STRESSED''),
      (''calm'', 0.2, ''CALM''),
      (''deep-flow'', 0.15, ''DEEP_FLOW''),
      (''normal'', 0.5, ''NORMAL'')]"

definition Object_prototype_names :: "string list" where
  "Object_prototype_names =
     [''constructor'', ''__defineGetter__'', ''__defineSetter__'', ''hasOwnProperty'',
      ''__lookupGetter__'', ''__lookupSetter__'', ''isPrototypeOf'',
      ''propertyIsEnumerable'', ''toString'', ''valueOf'', ''__proto__'',
      ''toLocaleString'']"

datatype property = Entry real string | Inherited

definition PRESETS_lookup :: "string \<Rightarrow> property option" where
  "PRESETS_lookup name =
     (case map_of PRESETS name of
        Some (stress_value, flow_value) \<Rightarrow> Some (Entry stress_value flow_value)
      | None \<Rightarrow> if name \<in> set Object_prototype_names then Some Inherited else None)"

definition validStates :: "string list" where
  "validStates = [''CALM'', ''NORMAL'', ''STRESSED'', ''DEEP_FLOW'', ''UNKNOWN'']"

text \<open>
  \<open>JSON.stringify\<close> on an object literal, as far as the keys go: a key whose value is
  \<open>undefined\<close> is left out.
\<close>

fun stringify :: "(string \<times> jsval option) list \<Rightarrow> (string \<times> jsval) list" where
  "stringify [] = []"
| "stringify ((key, None) # rest) = stringify rest"
| "stringify ((key, Some v) # rest) = (key, v) # stringify rest"

datatype exit_reason = UnknownPreset | StressOutOfRange | InvalidFlowState

text \<open>
  \<open>simulate\<close>, block by block. The built-ins \<open>parseFloat\<close> and \<open>toUpperCase\<close> are
  parameters; \<open>parseFloat\<close> is \<open>None\<close> where the built-in yields NaN or an infinity,
  which the range check refuses alike. \<open>now\<close> is the clock reading and \<open>pid\<close> the id of
  the running process. \<open>Inl\<close> is \<open>process.exit(1)\<close>. The variables \<open>stress_index\<close> and
  \<open>flow_state\<close> of the source are \<open>None\<close> while they hold \<open>undefined\<close>.
\<close>

text \<open>The block "Apply preset", from the initial values 0.5 and NORMAL.\<close>

definition apply_preset :: "SimulateOptions \<Rightarrow> exit_reason + (real option \<times> string option)" where
  "apply_preset options =
     (case preset options of
        None \<Rightarrow> Inr (Some 0.5, Some ''NORMAL'')
      | Some name \<Rightarrow>
          if name = [] then Inr (Some 0.5, Some ''NORMAL'')
          else (case PRESETS_lookup name of
                  None \<Rightarrow> Inl UnknownPreset
                | Some (Entry stress_value flow_value) \<Rightarrow>
                    Inr (Some stress_value, Some flow_value)
                | Some Inherited \<Rightarrow> Inr (None, None)))"

text \<open>The two blocks "Override with explicit values".\<close>

definition override_stress ::
  "(string \<Rightarrow> real option) \<Rightarrow> SimulateOptions \<Rightarrow> real option \<Rightarrow> exit_reason + real option" where
  "override_stress parseFloat options stress_value =
     (case stress options of
        None \<Rightarrow> Inr stress_value
      | Some text \<Rightarrow>
          if text = [] then Inr stress_value
          else (case parseFloat text of
                  None \<Rightarrow> Inl StressOutOfRange
                | Some x \<Rightarrow> if x < 0 \<or> x > 1 then Inl StressOutOfRange else Inr (Some x)))"

definition override_flow ::
  "(string \<Rightarrow> string) \<Rightarrow> SimulateOptions \<Rightarrow> string option \<Rightarrow> exit_reason + string option" where
  "override_flow toUpperCase options flow_value =
     (case flow options of
        None \<Rightarrow> Inr flow_value
      | Some text \<Rightarrow>
          if text = [] then Inr flow_value
          else if toUpperCase text \<in> set validStates then Inr (Some (toUpperCase text))
          else Inl InvalidFlowState)"

text \<open>The blocks "Create simulated state" and "Write to state file": the object written.\<close>

definition simulated_state ::
  "int \<Rightarrow> int \<Rightarrow> real option \<Rightarrow> string option \<Rightarrow> (string \<times> jsval) list" where
  "simulated_state now pid stress_value flow_value =
     stringify
       [(''stress_index'', map_option JNum stress_value),
        (''flow_state'', map_option JStr flow_value),
        (''timestamp'', Some (JNum (real_of_int now))),
        (''ttl_seconds'', Some (JNum 300)),
        (''daemon_pid'', Some (JNum (real_of_int pid))),
        (''confidence'', Some (JNum 1)),
        (''source'', Some (JStr ''simulation''))]"

definition simulate ::
  "(string \<Rightarrow> real option) \<Rightarrow> (string \<Rightarrow> string) \<Rightarrow> int \<Rightarrow> int \<Rightarrow> SimulateOptions
     \<Rightarrow> exit_reason + (string \<times> jsval) list" where
  "simulate parseFloat toUpperCase now pid options =
     (case apply_preset options of
        Inl e \<Rightarrow> Inl e
      | Inr (stress1, flow1) \<Rightarrow>
          (case override_stress parseFloat options stress1 of
             Inl e \<Rightarrow> Inl e
           | Inr stress2 \<Rightarrow>
               (case override_flow toUpperCase options flow1 of
                  Inl e \<Rightarrow> Inl e
                | Inr flow2 \<Rightarrow> Inr (simulated_state now pid stress2 flow2))))"

text \<open>
  The built-in \<open>toUpperCase\<close> on ASCII text, where it replaces the letters a to z by A to Z
  and keeps every other character.
\<close>

definition upper_char :: "char \<Rightarrow> char" where
  "upper_char c =
     (let n = (of_char c :: nat) in if 97 \<le> n \<and> n \<le> 122 then char_of (n - 32) else c)"

definition toUpperCase_ascii :: "string \<Rightarrow> string" where
  "toUpperCase_ascii s = map upper_char s"

section \<open>Validator\<close>



section \<open>Fetching\<close>

text \<open>
  C2, as the code has it. When the socket path fails (endpoint absent, timeout, connection
  error or unparsable data) the fetch continues with the file path: a parsable record in the
  file is the one validated and delivered, unchanged when it is fresh and its producer runs;
  when the file path fails as well (file absent, unreadable or unparsable) the fetch returns
  the default record, with stress index 0, flow state UNKNOWN and confidence 0. A record
  parsed from the socket is validated and delivered without the file being consulted. No
  exception leaves the fetch. What it returns is the default record or the received record
  exactly as received: the fetch checks the age and the producer of a record and nothing
  else.
\<close>

theorem readBiometricState_fallback:
  "((\<not> socket_present t \<or> socket_outcome t = SockTimeout \<or> socket_outcome t = SockError
      \<or> socket_outcome t = SockEnd Malformed) \<longrightarrow>
      (file_present t \<and> file_outcome t = FileText (Json s)
         \<longrightarrow> readBiometricState now now' procs t = Inr (validateState now now' procs s))
      \<and> (file_present t \<and> file_outcome t = FileText (Json s)
           \<and> now - timestamp s \<le> 60000 \<and> 0 < daemon_pid s \<and> daemon_pid s \<in> procs
         \<longrightarrow> readBiometricState now now' procs t = Inr s)
      \<and> (\<not> file_present t \<or> file_outcome t = FileReadError
           \<or> file_outcome t = FileText Malformed
         \<longrightarrow> readBiometricState now now' procs t = Inr (getDefaultState now)))
   \<and> (socket_present t \<and> socket_outcome t = SockEnd (Json s)
        \<longrightarrow> readBiometricState now now' procs t = Inr (validateState now now' procs s))
   \<and> stress_index (getDefaultState now) = 0
   \<and> flow_state (getDefaultState now) = UNKNOWN
   \<and> confidence (getDefaultState now) = 0
   \<and> (\<exists>state. readBiometricState now now' procs t = Inr state)
   \<and> (readBiometricState now now' procs t = Inr r
        \<longrightarrow> r = getDefaultState now \<or> r = getDefaultState now'
            \<or> socket_outcome t = SockEnd (Json r) \<or> file_outcome t = FileText (Json r))"
proof -
  let ?socket_fails =
    "\<not> socket_present t \<or> socket_outcome t = SockTimeout \<or> socket_outcome t = SockError
     \<or> socket_outcome t = SockEnd Malformed"
  have sock: "\<exists>e. readFromSocket t = Inl e" if ?socket_fails
    using that by (auto simp add: readFromSocket_def)
  have from_file: "readBiometricState now now' procs t = Inr (validateState now now' procs s)"
    if ?socket_fails "file_present t \<and> file_outcome t = FileText (Json s)"
    using sock [OF that(1)] that(2)
    by (auto simp add: readBiometricState_def readFromFile_def)
  have passes: "validateState now now' procs s = s"
    if "now - timestamp s \<le> 60000 \<and> 0 < daemon_pid s \<and> daemon_pid s \<in> procs"
    using that by (simp add: validateState_def isDaemonAlive_def MAX_STALENESS_MS_def Let_def)
  have no_file: "readBiometricState now now' procs t = Inr (getDefaultState now)"
    if ?socket_fails
       "\<not> file_present t \<or> file_outcome t = FileReadError \<or> file_outcome t = FileText Malformed"
    using sock [OF that(1)] that(2)
    by (auto simp add: readBiometricState_def readFromFile_def)
  have from_socket: "readBiometricState now now' procs t = Inr (validateState now now' procs s)"
    if "socket_present t \<and> socket_outcome t = SockEnd (Json s)"
    using that by (simp add: readBiometricState_def readFromSocket_def)
  have total: "\<exists>state. readBiometricState now now' procs t = Inr state"
    by (simp add: readBiometricState_def split: sum.splits)
  have kept: "validateState now now' procs x = x \<or> validateState now now' procs x = getDefaultState now'"
    for x
    by (simp add: validateState_def Let_def)
  have origin: "r = getDefaultState now \<or> r = getDefaultState now'
                \<or> socket_outcome t = SockEnd (Json r) \<or> file_outcome t = FileText (Json r)"
    if "readBiometricState now now' procs t = Inr r"
  proof (cases "readFromSocket t")
    case (Inr x)
    then have "socket_outcome t = SockEnd (Json x)"
      by (auto simp add: readFromSocket_def
          split: if_splits socket_outcome.splits payload.splits)
    moreover from Inr that have "r = validateState now now' procs x"
      by (simp add: readBiometricState_def)
    ultimately show ?thesis using kept [of x] by auto
  next
    case (Inl e)
    show ?thesis
    proof (cases "readFromFile t")
      case (Inr y)
      then have "file_outcome t = FileText (Json y)"
        by (auto simp add: readFromFile_def
            split: if_splits file_outcome.splits payload.splits)
      moreover from Inl Inr that have "r = validateState now now' procs y"
        by (simp add: readBiometricState_def)
      ultimately show ?thesis using kept [of y] by auto
    next
      case (Inl e')
      with \<open>readFromSocket t = Inl e\<close> that show ?thesis
        by (simp add: readBiometricState_def)
    qed
  qed
  have dflt: "stress_index (getDefaultState now) = 0 \<and> flow_state (getDefaultState now) = UNKNOWN
              \<and> confidence (getDefaultState now) = 0"
    by (simp add: getDefaultState_def)
  show ?thesis
    using from_file passes no_file from_socket total origin dflt
    by (metis (no_types, lifting))
qed

text \<open>
  C2, as stated, fails in its last part: with the socket timing out and a state file that
  holds a fresh record of a live producer with stress index -3 and confidence 2, the fetch
  returns that record, whose stress index and confidence lie outside [0, 1].
\<close>

theorem readBiometricState_fallback_counterexample:
  "readBiometricState 100000 100001 {4242}
     \<lparr>socket_present = True, socket_outcome = SockTimeout, file_present = True,
      file_outcome = FileText (Json
        \<lparr>stress_index = - 3, flow_state = CALM, timestamp = 99000, ttl_seconds = 5,
         daemon_pid = 4242, confidence = 2, source = ''keystroke''\<rparr>)\<rparr>
   = Inr \<lparr>stress_index = - 3, flow_state = CALM, timestamp = 99000, ttl_seconds = 5,
          daemon_pid = 4242, confidence = 2, source = ''keystroke''\<rparr>
   \<and> \<not> (0 \<le> stress_index
            \<lparr>stress_index = - 3, flow_state = CALM, timestamp = 99000, ttl_seconds = 5,
             daemon_pid = 4242, confidence = 2, source = ''keystroke''\<rparr>)
   \<and> \<not> (confidence
            \<lparr>stress_index = - 3, flow_state = CALM, timestamp = 99000, ttl_seconds = 5,
             daemon_pid = 4242, confidence = 2, source = ''keystroke''\<rparr> \<le> 1)"
  by (simp add: readBiometricState_def readFromSocket_def readFromFile_def validateState_def
      isDaemonAlive_def MAX_STALENESS_MS_def Let_def)

text \<open>
  Neither socket nor file present: the default record. Socket absent and a fresh record of
  a live producer in the file: that record. Socket timing out and an unparsable file: the
  default record. A fresh record of a live producer on the socket: that record, whatever
  the file holds.
\<close>

theorem readBiometricState_fallback_witness:
  "readBiometricState 5 6 {4242}
     \<lparr>socket_present = False, socket_outcome = SockError,
      file_present = False, file_outcome = FileReadError\<rparr>
   = Inr \<lparr>stress_index = 0, flow_state = UNKNOWN, timestamp = 5, ttl_seconds = 0,
          daemon_pid = - 1, confidence = 0, source = ''default''\<rparr>
   \<and> readBiometricState 100000 100001 {4242}
     \<lparr>socket_present = False, socket_outcome = SockError, file_present = True,
      file_outcome = FileText (Json
        \<lparr>stress_index = 0.8, flow_state = STRESSED, timestamp = 99000, ttl_seconds = 5,
         daemon_pid = 4242, confidence = 0.9, source = ''keystroke''\<rparr>)\<rparr>
   = Inr \<lparr>stress_index = 0.8, flow_state = STRESSED, timestamp = 99000, ttl_seconds = 5,
          daemon_pid = 4242, confidence = 0.9, source = ''keystroke''\<rparr>
   \<and> readBiometricState 100000 100001 {4242}
     \<lparr>socket_present = True, socket_outcome = SockTimeout,
      file_present = True, file_outcome = FileText Malformed\<rparr>
   = Inr (getDefaultState 100000)
   \<and> readBiometricState 100000 100001 {4242}
     \<lparr>socket_present = True,
      socket_outcome = SockEnd (Json
        \<lparr>stress_index = 0.2, flow_state = DEEP_FLOW, timestamp = 99990, ttl_seconds = 5,
         daemon_pid = 4242, confidence = 0.7, source = ''keystroke''\<rparr>),
      file_present = True, file_outcome = FileText Malformed\<rparr>
   = Inr \<lparr>stress_index = 0.2, flow_state = DEEP_FLOW, timestamp = 99990, ttl_seconds = 5,
          daemon_pid = 4242, confidence = 0.7, source = ''keystroke''\<rparr>"
proof -
  have neither: "readBiometricState 5 6 {4242}
     \<lparr>socket_present = False, socket_outcome = SockError,
      file_present = False, file_outcome = FileReadError\<rparr>
   = Inr \<lparr>stress_index = 0, flow_state = UNKNOWN, timestamp = 5, ttl_seconds = 0,
          daemon_pid = - 1, confidence = 0, source = ''default''\<rparr>"
    using readBiometricState_fallback [where now = 5 and now' = 6 and procs = "{4242}"
        and r = "getDefaultState 5" and s = "getDefaultState 5"
        and t = "\<lparr>socket_present = False, socket_outcome = SockError,
                  file_present = False, file_outcome = FileReadError\<rparr>"]
    by (simp add: getDefaultState_def)
  have file_record: "readBiometricState 100000 100001 {4242}
     \<lparr>socket_present = False, socket_outcome = SockError, file_present = True,
      file_outcome = FileText (Json
        \<lparr>stress_index = 0.8, flow_state = STRESSED, timestamp = 99000, ttl_seconds = 5,
         daemon_pid = 4242, confidence = 0.9, source = ''keystroke''\<rparr>)\<rparr>
   = Inr \<lparr>stress_index = 0.8, flow_state = STRESSED, timestamp = 99000, ttl_seconds = 5,
          daemon_pid = 4242, confidence = 0.9, source = ''keystroke''\<rparr>"
    using readBiometricState_fallback [where now = 100000 and now' = 100001 and procs = "{4242}"
        and r = "getDefaultState 100000"
        and s = "\<lparr>stress_index = 0.8, flow_state = STRESSED, timestamp = 99000,
                  ttl_seconds = 5, daemon_pid = 4242, confidence = 0.9,
                  source = ''keystroke''\<rparr>"
        and t = "\<lparr>socket_present = False, socket_outcome = SockError, file_present = True,
                  file_outcome = FileText (Json
                    \<lparr>stress_index = 0.8, flow_state = STRESSED, timestamp = 99000,
                     ttl_seconds = 5, daemon_pid = 4242, confidence = 0.9,
                     source = ''keystroke''\<rparr>)\<rparr>"]
    by auto
  have bad_file: "readBiometricState 100000 100001 {4242}
     \<lparr>socket_present = True, socket_outcome = SockTimeout,
      file_present = True, file_outcome = FileText Malformed\<rparr>
   = Inr (getDefaultState 100000)"
    using readBiometricState_fallback [where now = 100000 and now' = 100001 and procs = "{4242}"
        and r = "getDefaultState 100000" and s = "getDefaultState 100000"
        and t = "\<lparr>socket_present = True, socket_outcome = SockTimeout,
                  file_present = True, file_outcome = FileText Malformed\<rparr>"]
    by simp
  have socket_record: "readBiometricState 100000 100001 {4242}
     \<lparr>socket_present = True,
      socket_outcome = SockEnd (Json
        \<lparr>stress_index = 0.2, flow_state = DEEP_FLOW, timestamp = 99990, ttl_seconds = 5,
         daemon_pid = 4242, confidence = 0.7, source = ''keystroke''\<rparr>),
      file_present = True, file_outcome = FileText Malformed\<rparr>
   = Inr \<lparr>stress_index = 0.2, flow_state = DEEP_FLOW, timestamp = 99990, ttl_seconds = 5,
          daemon_pid = 4242, confidence = 0.7, source = ''keystroke''\<rparr>"
    using readBiometricState_fallback [where now = 100000 and now' = 100001 and procs = "{4242}"
        and r = "getDefaultState 100000"
        and s = "\<lparr>stress_index = 0.2, flow_state = DEEP_FLOW, timestamp = 99990,
                  ttl_seconds = 5, daemon_pid = 4242, confidence = 0.7,
                  source = ''keystroke''\<rparr>"
        and t = "\<lparr>socket_present = True,
                  socket_outcome = SockEnd (Json
                    \<lparr>stress_index = 0.2, flow_state = DEEP_FLOW, timestamp = 99990,
                     ttl_seconds = 5, daemon_pid = 4242, confidence = 0.7,
                     source = ''keystroke''\<rparr>),
                  file_present = True, file_outcome = FileText Malformed\<rparr>"]
    by (simp add: validateState_def isDaemonAlive_def MAX_STALENESS_MS_def Let_def)
  show ?thesis
    using neither file_record bad_file socket_record by blast
qed

section \<open>Ranges of the stress index and the confidence\<close>

subsection \<open>What mobile ingestion publishes\<close>

lemma hrvToStress_range: "0 \<le> hrvToStress h \<and> hrvToStress h \<le> 1"
  by (simp add: hrvToStress_def)

lemma heartRateToStress_range: "0 \<le> heartRateToStress r \<and> heartRateToStress r \<le> 1"
  by (simp add: heartRateToStress_def)

lemma round_hrv: "real_of_int (Math_round (hrvToStress h * 100)) / 100 = hrvToStress h"
  by (simp add: hrvToStress_def Math_round_def)

lemma round_heart_rate:
  "real_of_int (Math_round (heartRateToStress r * 100)) / 100 = heartRateToStress r"
  by (simp add: heartRateToStress_def Math_round_def)

text \<open>The record that an accepted request publishes.\<close>

lemma handleBiometricsPost_published:
  assumes "snd (handleBiometricsPost now write_ok data) = Some s"
  shows "stress_index s =
           (case hrv data of
              Some h \<Rightarrow> hrvToStress h
            | None \<Rightarrow> (case heart_rate data of Some r \<Rightarrow> heartRateToStress r | None \<Rightarrow> 0.5))"
    and "flow_state s = stressToFlowState (stress_index s)"
    and "confidence s = (if hrv data = None \<or> hrv data = Some 0 then 0.6 else 0.9)"
    and "daemon_pid s = - 1"
    and "ttl_seconds s = 300"
    and "timestamp s = or_int (timestamp_field data) now"
    and "source s = or_str (source_field data) ''mobile_healthkit''"
  using assms
  by (auto simp add: handleBiometricsPost_def truthy_num_def Let_def round_hrv round_heart_rate
      split: if_splits option.splits)

subsection \<open>No clamping in the Validator\<close>

text \<open>
  C3, as the code has it. The record that mobile ingestion publishes has its stress index
  and its confidence within [0, 1] for every sample. The Validator does not clamp: it
  returns the fetched record unchanged or the default record, whose stress index and
  confidence are 0; so what it delivers lies within [0, 1] whenever the fetched record does.
\<close>

theorem pipeline_range:
  "(snd (handleBiometricsPost now write_ok data) = Some s
      \<longrightarrow> 0 \<le> stress_index s \<and> stress_index s \<le> 1 \<and> 0 \<le> confidence s \<and> confidence s \<le> 1)
   \<and> (validateState now now' procs r = r \<or> validateState now now' procs r = getDefaultState now')
   \<and> stress_index (getDefaultState now') = 0 \<and> confidence (getDefaultState now') = 0
   \<and> (0 \<le> stress_index r \<and> stress_index r \<le> 1 \<and> 0 \<le> confidence r \<and> confidence r \<le> 1
      \<longrightarrow> 0 \<le> stress_index (validateState now now' procs r)
          \<and> stress_index (validateState now now' procs r) \<le> 1
          \<and> 0 \<le> confidence (validateState now now' procs r)
          \<and> confidence (validateState now now' procs r) \<le> 1)"
proof -
  have post: "0 \<le> stress_index s \<and> stress_index s \<le> 1 \<and> 0 \<le> confidence s \<and> confidence s \<le> 1"
    if "snd (handleBiometricsPost now write_ok data) = Some s"
    using handleBiometricsPost_published(1,3) [OF that] hrvToStress_range heartRateToStress_range
    by (simp split: option.splits)
  have keep: "validateState now now' procs r = r \<or> validateState now now' procs r = getDefaultState now'"
    by (simp add: validateState_def Let_def)
  have dflt: "stress_index (getDefaultState now') = 0 \<and> confidence (getDefaultState now') = 0"
    by (simp add: getDefaultState_def)
  show ?thesis
    using post keep dflt by (metis order_refl zero_le_one)
qed

text \<open>
  C3, as stated, fails: a fresh record of a live producer with stress index 5 and confidence
  7 is delivered as it is, by the Validator and by the fetch from the file.
\<close>

theorem pipeline_range_counterexample:
  "stress_index (validateState 100000 100001 {4242}
     \<lparr>stress_index = 5, flow_state = STRESSED, timestamp = 100000, ttl_seconds = 5,
      daemon_pid = 4242, confidence = 7, source = ''keystroke''\<rparr>) = 5
   \<and> confidence (validateState 100000 100001 {4242}
     \<lparr>stress_index = 5, flow_state = STRESSED, timestamp = 100000, ttl_seconds = 5,
      daemon_pid = 4242, confidence = 7, source = ''keystroke''\<rparr>) = 7
   \<and> readBiometricState 100000 100001 {4242}
       \<lparr>socket_present = False, socket_outcome = SockError, file_present = True,
        file_outcome = FileText (Json
          \<lparr>stress_index = 5, flow_state = STRESSED, timestamp = 100000, ttl_seconds = 5,
           daemon_pid = 4242, confidence = 7, source = ''keystroke''\<rparr>)\<rparr>
     = Inr \<lparr>stress_index = 5, flow_state = STRESSED, timestamp = 100000, ttl_seconds = 5,
           daemon_pid = 4242, confidence = 7, source = ''keystroke''\<rparr>"
  by (simp add: readBiometricState_def readFromSocket_def readFromFile_def validateState_def
      isDaemonAlive_def MAX_STALENESS_MS_def Let_def)

text \<open>A sample with HRV 55 ms, and a fresh record of a live producer within range.\<close>

theorem pipeline_range_witness:
  "0 \<le> stress_index (validateState 100000 100001 {4242}
     \<lparr>stress_index = 0.8, flow_state = STRESSED, timestamp = 100000, ttl_seconds = 5,
      daemon_pid = 4242, confidence = 0.9, source = ''keystroke''\<rparr>)
   \<and> stress_index (validateState 100000 100001 {4242}
     \<lparr>stress_index = 0.8, flow_state = STRESSED, timestamp = 100000, ttl_seconds = 5,
      daemon_pid = 4242, confidence = 0.9, source = ''keystroke''\<rparr>) \<le> 1
   \<and> snd (handleBiometricsPost 100000 True
        \<lparr>heart_rate = Some 72, hrv = Some 55, source_field = None, timestamp_field = None\<rparr>)
      = Some \<lparr>stress_index = 0.6, flow_state = NORMAL, timestamp = 100000, ttl_seconds = 300,
         daemon_pid = - 1, confidence = 0.9, source = ''mobile_healthkit''\<rparr>
   \<and> stress_index \<lparr>stress_index = 0.6, flow_state = NORMAL, timestamp = 100000, ttl_seconds = 300,
         daemon_pid = - 1, confidence = 0.9, source = ''mobile_healthkit''\<rparr> \<le> (1::real)"
proof -
  have post: "snd (handleBiometricsPost 100000 True
        \<lparr>heart_rate = Some 72, hrv = Some 55, source_field = None, timestamp_field = None\<rparr>)
      = Some \<lparr>stress_index = 0.6, flow_state = NORMAL, timestamp = 100000, ttl_seconds = 300,
         daemon_pid = - 1, confidence = 0.9, source = ''mobile_healthkit''\<rparr>"
    by (simp add: handleBiometricsPost_def truthy_num_def hrvToStress_def stressToFlowState_def
        Math_round_def or_int_def or_str_def Let_def)
  show ?thesis
    using post
      pipeline_range [of 100000 True
        "\<lparr>heart_rate = Some 72, hrv = Some 55, source_field = None, timestamp_field = None\<rparr>"
        "\<lparr>stress_index = 0.6, flow_state = NORMAL, timestamp = 100000, ttl_seconds = 300,
         daemon_pid = - 1, confidence = 0.9, source = ''mobile_healthkit''\<rparr>"
        100001 "{4242}"
        "\<lparr>stress_index = 0.8, flow_state = STRESSED, timestamp = 100000, ttl_seconds = 5,
         daemon_pid = 4242, confidence = 0.9, source = ''keystroke''\<rparr>"]
    by simp
qed

section \<open>Precepts\<close>

text \<open>
  The directive array after the hook body: the array found in the context (empty when
  there was none), then CONCISE_MODE if the first rule fires, then NO_INTERRUPT if the
  second does.
\<close>

lemma pre_process_systemPrecepts:
  "systemPrecepts (pre_process state ctx) =
     Some ((case systemPrecepts ctx of None \<Rightarrow> [] | Some ps \<Rightarrow> ps)
           @ (if stress_index state > 0.7 \<and> confidence state > 0.5 then [''CONCISE_MODE''] else [])
           @ (if flow_state state = DEEP_FLOW \<and> confidence state > 0.5 then [''NO_INTERRUPT''] else []))"
  by (cases "systemPrecepts ctx") (simp_all add: pre_process_def push_def Let_def)

lemma pre_process_note_unchanged:
  "\<not> confidence state > 0.5 \<Longrightarrow> biometricNote (pre_process state ctx) = biometricNote ctx"
  by (simp add: pre_process_def Let_def)

text \<open>
  C4. For a record with confidence at most 0.5, whatever its stress index and flow state,
  the hook appends neither CONCISE_MODE nor NO_INTERRUPT: the directive array is the one
  found in the context (the empty one when there was none), and the note is untouched.
\<close>

theorem low_confidence_no_directive:
  assumes "confidence state \<le> 0.5"
  shows "systemPrecepts (pre_process state ctx) =
           Some (case systemPrecepts ctx of None \<Rightarrow> [] | Some ps \<Rightarrow> ps)
         \<and> biometricNote (pre_process state ctx) = biometricNote ctx
         \<and> (systemPrecepts ctx = None \<longrightarrow> systemPrecepts (pre_process state ctx) = Some [])"
proof -
  from assms have low: "\<not> confidence state > 0.5" by simp
  then show ?thesis
    using pre_process_systemPrecepts [of state ctx] pre_process_note_unchanged [of state ctx]
    by simp
qed

text \<open>Stress index 0.95 and DEEP_FLOW at confidence exactly 0.5, on a context without array.\<close>

theorem low_confidence_no_directive_witness:
  "systemPrecepts (pre_process
      \<lparr>stress_index = 0.95, flow_state = DEEP_FLOW, timestamp = 100000, ttl_seconds = 5,
       daemon_pid = 4242, confidence = 0.5, source = ''keystroke''\<rparr>
      \<lparr>biometrics = None, biometricNote = None, systemPrecepts = None\<rparr>) = Some []
   \<and> biometricNote (pre_process
      \<lparr>stress_index = 0.95, flow_state = DEEP_FLOW, timestamp = 100000, ttl_seconds = 5,
       daemon_pid = 4242, confidence = 0.5, source = ''keystroke''\<rparr>
      \<lparr>biometrics = None, biometricNote = None, systemPrecepts = None\<rparr>) = None"
  using low_confidence_no_directive [of
      "\<lparr>stress_index = 0.95, flow_state = DEEP_FLOW, timestamp = 100000, ttl_seconds = 5,
       daemon_pid = 4242, confidence = 0.5, source = ''keystroke''\<rparr>"
      "\<lparr>biometrics = None, biometricNote = None, systemPrecepts = None\<rparr>"]
  by simp

text \<open>
  C5, as the code has it. The hook starts from an empty directive array only when the
  context holds none; otherwise it appends to the array it finds. One evaluation yields the
  prior directives followed by those of the record; a second evaluation of the same record
  on the resulting context appends the record's directives once more.
\<close>

theorem evaluation_appends:
  "(let prior = (case systemPrecepts ctx of None \<Rightarrow> [] | Some ps \<Rightarrow> ps);
        fired =
          (if stress_index state > 0.7 \<and> confidence state > 0.5 then [''CONCISE_MODE''] else [])
          @ (if flow_state state = DEEP_FLOW \<and> confidence state > 0.5 then [''NO_INTERRUPT''] else [])
    in systemPrecepts (pre_process state ctx) = Some (prior @ fired)
       \<and> systemPrecepts (pre_process state (pre_process state ctx)) = Some (prior @ fired @ fired)
       \<and> (systemPrecepts ctx = None \<longrightarrow> systemPrecepts (pre_process state ctx) = Some fired))"
  unfolding Let_def
  using pre_process_systemPrecepts [of state ctx]
    pre_process_systemPrecepts [of state "pre_process state ctx"]
  by simp

text \<open>
  C5, as stated, fails: stress index 0.85 at confidence 0.9, evaluated twice on a context
  that had no array, leaves CONCISE_MODE twice; evaluated once, once.
\<close>

theorem evaluation_appends_counterexample:
  "systemPrecepts (pre_process
      \<lparr>stress_index = 0.85, flow_state = STRESSED, timestamp = 100000, ttl_seconds = 5,
       daemon_pid = 4242, confidence = 0.9, source = ''keystroke''\<rparr>
      (pre_process
        \<lparr>stress_index = 0.85, flow_state = STRESSED, timestamp = 100000, ttl_seconds = 5,
         daemon_pid = 4242, confidence = 0.9, source = ''keystroke''\<rparr>
        \<lparr>biometrics = None, biometricNote = None, systemPrecepts = None\<rparr>))
     = Some [''CONCISE_MODE'', ''CONCISE_MODE'']
   \<and> systemPrecepts (pre_process
        \<lparr>stress_index = 0.85, flow_state = STRESSED, timestamp = 100000, ttl_seconds = 5,
         daemon_pid = 4242, confidence = 0.9, source = ''keystroke''\<rparr>
        \<lparr>biometrics = None, biometricNote = None, systemPrecepts = None\<rparr>)
     = Some [''CONCISE_MODE'']"
  by (simp add: pre_process_def push_def Let_def)

theorem evaluation_appends_witness:
  "systemPrecepts (pre_process
      \<lparr>stress_index = 0.15, flow_state = DEEP_FLOW, timestamp = 100000, ttl_seconds = 5,
       daemon_pid = 4242, confidence = 0.9, source = ''keystroke''\<rparr>
      \<lparr>biometrics = None, biometricNote = None, systemPrecepts = None\<rparr>)
     = Some [''NO_INTERRUPT'']"
  using evaluation_appends [of
      "\<lparr>biometrics = None, biometricNote = None, systemPrecepts = None\<rparr>"
      "\<lparr>stress_index = 0.15, flow_state = DEEP_FLOW, timestamp = 100000, ttl_seconds = 5,
       daemon_pid = 4242, confidence = 0.9, source = ''keystroke''\<rparr>"]
  by (simp add: Let_def)

section \<open>Fallback values\<close>

text \<open>
  C6, as the code has it. The state reader substitutes one and the same default record on
  each of its degradation paths (stale record, dead producer, both transports failing):
  stress index 0, flow state UNKNOWN, confidence 0, validity window 0, producer id -1,
  source "default", timestamp the clock reading at the substitution. The status endpoint's
  reader substitutes a different placeholder when the state file is absent: stress index 0,
  flow state UNKNOWN, timestamp 0, producer id -1, source "none", and neither validity
  window nor confidence.
\<close>

theorem fallback_values:
  "getDefaultState n =
     \<lparr>stress_index = 0, flow_state = UNKNOWN, timestamp = n, ttl_seconds = 0,
      daemon_pid = - 1, confidence = 0, source = ''default''\<rparr>
   \<and> (now - timestamp state > 60000 \<or> \<not> isDaemonAlive procs (daemon_pid state)
        \<longrightarrow> validateState now now' procs state = getDefaultState now')
   \<and> ((\<exists>e. readFromSocket t = Inl e) \<and> (\<exists>e. readFromFile t = Inl e)
        \<longrightarrow> readBiometricState now now' procs t = Inr (getDefaultState now))
   \<and> (\<not> file_present t
        \<longrightarrow> readCurrentState t =
            Inr [(''stress_index'', JNum 0), (''flow_state'', JStr ''UNKNOWN''),
                 (''timestamp'', JNum 0), (''daemon_pid'', JNum (- 1)),
                 (''source'', JStr ''none'')])"
proof -
  have reader: "readBiometricState now now' procs t = Inr (getDefaultState now)"
    if "(\<exists>e. readFromSocket t = Inl e) \<and> (\<exists>e. readFromFile t = Inl e)"
    using that by (auto simp add: readBiometricState_def)
  have validator: "validateState now now' procs state = getDefaultState now'"
    if "now - timestamp state > 60000 \<or> \<not> isDaemonAlive procs (daemon_pid state)"
    using that by (auto simp add: validateState_def MAX_STALENESS_MS_def Let_def)
  show ?thesis
    using reader validator by (simp add: getDefaultState_def readCurrentState_def)
qed

text \<open>
  C6, as stated, fails: with no state file, the status endpoint's fallback has source
  "none" and no confidence, where the default record has source "default" and confidence 0.
\<close>

theorem fallback_values_counterexample:
  "(case readCurrentState
           \<lparr>socket_present = False, socket_outcome = SockError,
            file_present = False, file_outcome = FileReadError\<rparr> of
      Inl e \<Rightarrow> False
    | Inr obj \<Rightarrow>
        map_of obj ''source'' = Some (JStr ''none'')
        \<and> map_of (fields_of (getDefaultState 100000)) ''source'' = Some (JStr ''default'')
        \<and> map_of obj ''confidence'' = None
        \<and> map_of (fields_of (getDefaultState 100000)) ''confidence'' = Some (JNum 0)
        \<and> obj \<noteq> fields_of (getDefaultState 100000))"
  by (simp add: readCurrentState_def fields_of_def getDefaultState_def)

text \<open>A stale record, a failing fetch and a status read without state file.\<close>

theorem fallback_values_witness:
  "validateState 100000 100001 {4242}
     \<lparr>stress_index = 0.8, flow_state = STRESSED, timestamp = 1, ttl_seconds = 5,
      daemon_pid = 4242, confidence = 0.9, source = ''keystroke''\<rparr> = getDefaultState 100001
   \<and> readBiometricState 100000 100001 {4242}
       \<lparr>socket_present = False, socket_outcome = SockError,
        file_present = False, file_outcome = FileReadError\<rparr> = Inr (getDefaultState 100000)
   \<and> readCurrentState
       \<lparr>socket_present = False, socket_outcome = SockError,
        file_present = False, file_outcome = FileReadError\<rparr>
      = Inr [(''stress_index'', JNum 0), (''flow_state'', JStr ''UNKNOWN''),
             (''timestamp'', JNum 0), (''daemon_pid'', JNum (- 1)),
             (''source'', JStr ''none'')]"
proof -
  have sock: "\<exists>e. readFromSocket
       \<lparr>socket_present = False, socket_outcome = SockError,
        file_present = False, file_outcome = FileReadError\<rparr> = Inl e"
    by (simp add: readFromSocket_def)
  have fil: "\<exists>e. readFromFile
       \<lparr>socket_present = False, socket_outcome = SockError,
        file_present = False, file_outcome = FileReadError\<rparr> = Inl e"
    by (simp add: readFromFile_def)
  show ?thesis
    using sock fil
      fallback_values [where now = 100000 and now' = 100001 and procs = "{4242}"
        and state = "\<lparr>stress_index = 0.8, flow_state = STRESSED, timestamp = 1, ttl_seconds = 5,
          daemon_pid = 4242, confidence = 0.9, source = ''keystroke''\<rparr>"
        and t = "\<lparr>socket_present = False, socket_outcome = SockError,
          file_present = False, file_outcome = FileReadError\<rparr>"]
    by simp
qed

lemma simulate_steps:
  assumes "simulate parseFloat toUpperCase now pid options = Inr obj"
  obtains stress1 flow1 stress2 flow2 where
    "apply_preset options = Inr (stress1, flow1)"
    "override_stress parseFloat options stress1 = Inr stress2"
    "override_flow toUpperCase options flow1 = Inr flow2"
    "obj = simulated_state now pid stress2 flow2"
  using assms
  by (auto simp add: simulate_def split: sum.splits prod.splits)

lemma simulated_state_fields:
  "map_of (simulated_state now pid stress_value flow_value) ''stress_index''
     = map_option JNum stress_value"
  "map_of (simulated_state now pid stress_value flow_value) ''flow_state''
     = map_option JStr flow_value"
  by (cases stress_value; cases flow_value; simp add: simulated_state_def)+

lemma apply_preset_values:
  assumes "apply_preset options = Inr (stress1, flow1)"
  shows "stress1 =
           (case preset options of
              None \<Rightarrow> Some 0.5
            | Some name \<Rightarrow>
                if name = [] then Some 0.5
                else map_option fst (map_of PRESETS name))"
    and "flow1 =
           (case preset options of
              None \<Rightarrow> Some ''NORMAL''
            | Some name \<Rightarrow>
                if name = [] then Some ''NORMAL''
                else map_option snd (map_of PRESETS name))"
    and "\<And>name. preset options = Some name \<Longrightarrow> name \<noteq> []
           \<Longrightarrow> name \<in> fst ` set PRESETS \<or> name \<in> set Object_prototype_names"
proof -
  show "stress1 =
           (case preset options of
              None \<Rightarrow> Some 0.5
            | Some name \<Rightarrow>
                if name = [] then Some 0.5
                else map_option fst (map_of PRESETS name))"
    using assms
    by (auto simp add: apply_preset_def PRESETS_lookup_def
        split: option.splits if_splits property.splits)
  show "flow1 =
           (case preset options of
              None \<Rightarrow> Some ''NORMAL''
            | Some name \<Rightarrow>
                if name = [] then Some ''NORMAL''
                else map_option snd (map_of PRESETS name))"
    using assms
    by (auto simp add: apply_preset_def PRESETS_lookup_def
        split: option.splits if_splits property.splits)
  show "name \<in> fst ` set PRESETS \<or> name \<in> set Object_prototype_names"
    if "preset options = Some name" "name \<noteq> []" for name
  proof (cases "map_of PRESETS name")
    case None
    with that assms show ?thesis
      by (auto simp add: apply_preset_def PRESETS_lookup_def split: if_splits)
  next
    case (Some entry)
    then have "(name, entry) \<in> set PRESETS" by (rule map_of_SomeD)
    then show ?thesis by force
  qed
qed

lemma override_stress_values:
  assumes "override_stress parseFloat options stress1 = Inr stress2"
  shows "stress options = None \<or> stress options = Some [] \<Longrightarrow> stress2 = stress1"
    and "\<And>arg. stress options = Some arg \<Longrightarrow> arg \<noteq> []
           \<Longrightarrow> \<exists>x. parseFloat arg = Some x \<and> 0 \<le> x \<and> x \<le> 1 \<and> stress2 = Some x"
  using assms
  by (auto simp add: override_stress_def split: option.splits if_splits)

lemma override_flow_values:
  assumes "override_flow toUpperCase options flow1 = Inr flow2"
  shows "flow options = None \<or> flow options = Some [] \<Longrightarrow> flow2 = flow1"
    and "\<And>arg. flow options = Some arg \<Longrightarrow> arg \<noteq> []
           \<Longrightarrow> toUpperCase arg \<in> set validStates \<and> flow2 = Some (toUpperCase arg)"
  using assms
  by (auto simp add: override_flow_def split: option.splits if_splits)

text \<open>
  C7, as the code has it. A record published by mobile ingestion carries the flow state
  that the threshold mapping gives for its stress index. The simulate command sets the two
  fields independently of each other and never consults the mapping: the flow option, when
  given, alone decides the flow state (its upper-case form, a member of the valid states),
  the stress option, when given, alone decides the stress index (its parsed value). A field
  without option takes the value that the table of presets has for the chosen preset, is
  left out of the written record when the table has no entry of that name (the run goes on
  for the property names that the table inherits, such as constructor, and exits for all
  others), and is the initial 0.5 or NORMAL when no preset is chosen. The presets
  high-stress, deep-flow and normal agree with the mapping.
\<close>

theorem flow_state_of_producers:
  "(snd (handleBiometricsPost now write_ok data) = Some s
      \<longrightarrow> flow_state s = stressToFlowState (stress_index s))
   \<and> (simulate parseFloat toUpperCase now pid options = Inr obj \<longrightarrow>
        (\<forall>arg. flow options = Some arg \<and> arg \<noteq> []
           \<longrightarrow> map_of obj ''flow_state'' = Some (JStr (toUpperCase arg))
               \<and> toUpperCase arg \<in> set validStates)
        \<and> (\<forall>arg. stress options = Some arg \<and> arg \<noteq> []
           \<longrightarrow> (\<exists>x. parseFloat arg = Some x \<and> 0 \<le> x \<and> x \<le> 1
                    \<and> map_of obj ''stress_index'' = Some (JNum x)))
        \<and> (flow options = None \<or> flow options = Some []
           \<longrightarrow> map_of obj ''flow_state'' =
                 (case preset options of
                    None \<Rightarrow> Some (JStr ''NORMAL'')
                  | Some name \<Rightarrow>
                      if name = [] then Some (JStr ''NORMAL'')
                      else map_option (JStr \<circ> snd) (map_of PRESETS name)))
        \<and> (stress options = None \<or> stress options = Some []
           \<longrightarrow> map_of obj ''stress_index'' =
                 (case preset options of
                    None \<Rightarrow> Some (JNum 0.5)
                  | Some name \<Rightarrow>
                      if name = [] then Some (JNum 0.5)
                      else map_option (JNum \<circ> fst) (map_of PRESETS name)))
        \<and> (\<forall>name. preset options = Some name \<and> name \<noteq> []
           \<longrightarrow> name \<in> fst ` set PRESETS \<or> name \<in> set Object_prototype_names))
   \<and> (\<forall>name. preset options = Some name \<and> name \<noteq> []
          \<and> name \<notin> fst ` set PRESETS \<and> name \<notin> set Object_prototype_names
        \<longrightarrow> simulate parseFloat toUpperCase now pid options = Inl UnknownPreset)
   \<and> (\<forall>name. preset options = Some name \<and> name \<in> set Object_prototype_names
          \<and> (stress options = None \<or> stress options = Some [])
          \<and> (flow options = None \<or> flow options = Some [])
        \<longrightarrow> simulate parseFloat toUpperCase now pid options =
            Inr [(''timestamp'', JNum (real_of_int now)), (''ttl_seconds'', JNum 300),
                 (''daemon_pid'', JNum (real_of_int pid)), (''confidence'', JNum 1),
                 (''source'', JStr ''simulation'')])
   \<and> (\<forall>name stress_value flow_value.
        name \<in> {''high-stress'', ''deep-flow'', ''normal''}
        \<and> map_of PRESETS name = Some (stress_value, flow_value)
        \<longrightarrow> flow_value = flow_name (stressToFlowState stress_value))"
proof -
  have mobile: "flow_state s = stressToFlowState (stress_index s)"
    if "snd (handleBiometricsPost now write_ok data) = Some s"
    using handleBiometricsPost_published(2) [OF that] .
  have written:
    "(\<forall>arg. flow options = Some arg \<and> arg \<noteq> []
        \<longrightarrow> map_of obj ''flow_state'' = Some (JStr (toUpperCase arg))
            \<and> toUpperCase arg \<in> set validStates)
     \<and> (\<forall>arg. stress options = Some arg \<and> arg \<noteq> []
        \<longrightarrow> (\<exists>x. parseFloat arg = Some x \<and> 0 \<le> x \<and> x \<le> 1
                 \<and> map_of obj ''stress_index'' = Some (JNum x)))
     \<and> (flow options = None \<or> flow options = Some []
        \<longrightarrow> map_of obj ''flow_state'' =
              (case preset options of
                 None \<Rightarrow> Some (JStr ''NORMAL'')
               | Some name \<Rightarrow>
                   if name = [] then Some (JStr ''NORMAL'')
                   else map_option (JStr \<circ> snd) (map_of PRESETS name)))
     \<and> (stress options = None \<or> stress options = Some []
        \<longrightarrow> map_of obj ''stress_index'' =
              (case preset options of
                 None \<Rightarrow> Some (JNum 0.5)
               | Some name \<Rightarrow>
                   if name = [] then Some (JNum 0.5)
                   else map_option (JNum \<circ> fst) (map_of PRESETS name)))
     \<and> (\<forall>name. preset options = Some name \<and> name \<noteq> []
        \<longrightarrow> name \<in> fst ` set PRESETS \<or> name \<in> set Object_prototype_names)"
    if run: "simulate parseFloat toUpperCase now pid options = Inr obj"
  proof -
    from run obtain stress1 flow1 stress2 flow2 where
      step1: "apply_preset options = Inr (stress1, flow1)" and
      step2: "override_stress parseFloat options stress1 = Inr stress2" and
      step3: "override_flow toUpperCase options flow1 = Inr flow2" and
      obj: "obj = simulated_state now pid stress2 flow2"
      by (rule simulate_steps)
    have fields: "map_of obj ''stress_index'' = map_option JNum stress2"
      "map_of obj ''flow_state'' = map_option JStr flow2"
      unfolding obj by (rule simulated_state_fields)+
    have a: "map_of obj ''flow_state'' = Some (JStr (toUpperCase arg))
             \<and> toUpperCase arg \<in> set validStates"
      if "flow options = Some arg \<and> arg \<noteq> []" for arg
      using override_flow_values(2) [OF step3, of arg] that fields(2) by simp
    have b: "\<exists>x. parseFloat arg = Some x \<and> 0 \<le> x \<and> x \<le> 1
                 \<and> map_of obj ''stress_index'' = Some (JNum x)"
      if "stress options = Some arg \<and> arg \<noteq> []" for arg
      using override_stress_values(2) [OF step2, of arg] that fields(1) by auto
    have c: "map_of obj ''flow_state'' =
              (case preset options of
                 None \<Rightarrow> Some (JStr ''NORMAL'')
               | Some name \<Rightarrow>
                   if name = [] then Some (JStr ''NORMAL'')
                   else map_option (JStr \<circ> snd) (map_of PRESETS name))"
      if "flow options = None \<or> flow options = Some []"
      using override_flow_values(1) [OF step3 that] apply_preset_values(2) [OF step1] fields(2)
      by (simp add: option.map_comp split: option.splits)
    have d: "map_of obj ''stress_index'' =
              (case preset options of
                 None \<Rightarrow> Some (JNum 0.5)
               | Some name \<Rightarrow>
                   if name = [] then Some (JNum 0.5)
                   else map_option (JNum \<circ> fst) (map_of PRESETS name))"
      if "stress options = None \<or> stress options = Some []"
      using override_stress_values(1) [OF step2 that] apply_preset_values(1) [OF step1] fields(1)
      by (simp add: option.map_comp split: option.splits)
    have e: "name \<in> fst ` set PRESETS \<or> name \<in> set Object_prototype_names"
      if "preset options = Some name \<and> name \<noteq> []" for name
      using apply_preset_values(3) [OF step1, of name] that by simp
    from a b c d e show ?thesis by blast
  qed
  have unknown: "simulate parseFloat toUpperCase now pid options = Inl UnknownPreset"
    if "preset options = Some name \<and> name \<noteq> []
        \<and> name \<notin> fst ` set PRESETS \<and> name \<notin> set Object_prototype_names"
    for name
  proof -
    from that have "map_of PRESETS name = None"
      by (simp add: map_of_eq_None_iff)
    with that show ?thesis
      by (simp add: simulate_def apply_preset_def PRESETS_lookup_def)
  qed
  have inherited: "simulate parseFloat toUpperCase now pid options =
            Inr [(''timestamp'', JNum (real_of_int now)), (''ttl_seconds'', JNum 300),
                 (''daemon_pid'', JNum (real_of_int pid)), (''confidence'', JNum 1),
                 (''source'', JStr ''simulation'')]"
    if "preset options = Some name \<and> name \<in> set Object_prototype_names
        \<and> (stress options = None \<or> stress options = Some [])
        \<and> (flow options = None \<or> flow options = Some [])"
    for name
  proof -
    from that have look: "PRESETS_lookup name = Some Inherited" and nonempty: "name \<noteq> []"
      by (auto simp add: PRESETS_lookup_def Object_prototype_names_def PRESETS_def)
    from that look nonempty have "apply_preset options = Inr (None, None)"
      by (simp add: apply_preset_def)
    moreover from that have "override_stress parseFloat options None = Inr None"
      by (auto simp add: override_stress_def)
    moreover from that have "override_flow toUpperCase options None = Inr None"
      by (auto simp add: override_flow_def)
    ultimately show ?thesis
      by (simp add: simulate_def simulated_state_def)
  qed
  have presets: "flow_value = flow_name (stressToFlowState stress_value)"
    if "name \<in> {''high-stress'', ''deep-flow'', ''normal''}
        \<and> map_of PRESETS name = Some (stress_value, flow_value)"
    for name stress_value flow_value
    using that by (auto simp add: PRESETS_def stressToFlowState_def)
  show ?thesis
  proof (intro conjI impI allI)
    show "flow_state s = stressToFlowState (stress_index s)"
      if "snd (handleBiometricsPost now write_ok data) = Some s"
      using mobile [OF that] .
  qed (use written unknown inherited presets in blast)+
qed

text \<open>
  C7, as stated, fails: the preset high-stress with the flow option CALM writes stress
  index 0.9 with flow state CALM, where the mapping gives STRESSED.
\<close>

theorem flow_state_of_producers_counterexample:
  "simulate Map.empty toUpperCase_ascii 100000 4242
     \<lparr>preset = Some ''high-stress'', stress = None, flow = Some ''CALM''\<rparr>
   = Inr [(''stress_index'', JNum 0.9), (''flow_state'', JStr ''CALM''),
          (''timestamp'', JNum 100000), (''ttl_seconds'', JNum 300),
          (''daemon_pid'', JNum 4242), (''confidence'', JNum 1),
          (''source'', JStr ''simulation'')]
   \<and> flow_name (stressToFlowState 0.9) = ''STRESSED''"
  by (simp add: simulate_def apply_preset_def override_stress_def override_flow_def simulated_state_def
      PRESETS_lookup_def PRESETS_def validStates_def
      toUpperCase_ascii_def upper_char_def stressToFlowState_def Let_def)

text \<open>
  A sample with heart rate 65; the preset deep-flow without further options; the options
  stress 0.3 and flow calm on top of the preset high-stress; and the inherited property
  name constructor as preset, without further options.
\<close>

theorem flow_state_of_producers_witness:
  "snd (handleBiometricsPost 100000 True
        \<lparr>heart_rate = Some 65, hrv = None, source_field = None, timestamp_field = None\<rparr>)
     = Some \<lparr>stress_index = 0.3, flow_state = CALM, timestamp = 100000, ttl_seconds = 300,
         daemon_pid = - 1, confidence = 0.6, source = ''mobile_healthkit''\<rparr>
   \<and> CALM = stressToFlowState 0.3
   \<and> simulate Map.empty toUpperCase_ascii 100000 4242
        \<lparr>preset = Some ''deep-flow'', stress = None, flow = None\<rparr>
     = Inr [(''stress_index'', JNum 0.15), (''flow_state'', JStr ''DEEP_FLOW''),
            (''timestamp'', JNum 100000), (''ttl_seconds'', JNum 300),
            (''daemon_pid'', JNum 4242), (''confidence'', JNum 1),
            (''source'', JStr ''simulation'')]
   \<and> ''DEEP_FLOW'' = flow_name (stressToFlowState 0.15)
   \<and> simulate [''0.3'' \<mapsto> 0.3] toUpperCase_ascii 100000 4242
        \<lparr>preset = Some ''high-stress'', stress = Some ''0.3'', flow = Some ''calm''\<rparr>
     = Inr [(''stress_index'', JNum 0.3), (''flow_state'', JStr ''CALM''),
            (''timestamp'', JNum 100000), (''ttl_seconds'', JNum 300),
            (''daemon_pid'', JNum 4242), (''confidence'', JNum 1),
            (''source'', JStr ''simulation'')]
   \<and> toUpperCase_ascii ''calm'' \<in> set validStates
   \<and> simulate Map.empty toUpperCase_ascii 100000 4242
        \<lparr>preset = Some ''constructor'', stress = None, flow = None\<rparr>
     = Inr [(''timestamp'', JNum 100000), (''ttl_seconds'', JNum 300),
            (''daemon_pid'', JNum 4242), (''confidence'', JNum 1),
            (''source'', JStr ''simulation'')]
   \<and> simulate Map.empty toUpperCase_ascii 100000 4242
        \<lparr>preset = Some ''relaxed'', stress = None, flow = None\<rparr> = Inl UnknownPreset"
proof -
  have post: "snd (handleBiometricsPost 100000 True
        \<lparr>heart_rate = Some 65, hrv = None, source_field = None, timestamp_field = None\<rparr>)
     = Some \<lparr>stress_index = 0.3, flow_state = CALM, timestamp = 100000, ttl_seconds = 300,
         daemon_pid = - 1, confidence = 0.6, source = ''mobile_healthkit''\<rparr>"
    by (simp add: handleBiometricsPost_def truthy_num_def heartRateToStress_def
        stressToFlowState_def Math_round_def or_int_def or_str_def Let_def)
  have sim: "simulate Map.empty toUpperCase_ascii 100000 4242
        \<lparr>preset = Some ''deep-flow'', stress = None, flow = None\<rparr>
     = Inr [(''stress_index'', JNum 0.15), (''flow_state'', JStr ''DEEP_FLOW''),
            (''timestamp'', JNum 100000), (''ttl_seconds'', JNum 300),
            (''daemon_pid'', JNum 4242), (''confidence'', JNum 1),
            (''source'', JStr ''simulation'')]"
    by (simp add: simulate_def apply_preset_def override_stress_def override_flow_def simulated_state_def
      PRESETS_lookup_def PRESETS_def validStates_def)
  have upper: "toUpperCase_ascii ''calm'' = ''CALM''"
    by code_simp
  have sim_flags: "simulate [''0.3'' \<mapsto> 0.3] toUpperCase_ascii 100000 4242
        \<lparr>preset = Some ''high-stress'', stress = Some ''0.3'', flow = Some ''calm''\<rparr>
     = Inr [(''stress_index'', JNum 0.3), (''flow_state'', JStr ''CALM''),
            (''timestamp'', JNum 100000), (''ttl_seconds'', JNum 300),
            (''daemon_pid'', JNum 4242), (''confidence'', JNum 1),
            (''source'', JStr ''simulation'')]"
    using upper
    by (simp add: simulate_def apply_preset_def override_stress_def override_flow_def simulated_state_def
      PRESETS_lookup_def PRESETS_def validStates_def)
  have preset: "map_of PRESETS ''deep-flow'' = Some (0.15, ''DEEP_FLOW'')"
    by (simp add: PRESETS_def)
  have names: "''constructor'' \<in> set Object_prototype_names"
    "''relaxed'' \<notin> set Object_prototype_names" "''relaxed'' \<notin> fst ` set PRESETS"
    by (simp_all add: Object_prototype_names_def PRESETS_def)
  have mobile_and_preset:
    "CALM = stressToFlowState 0.3 \<and> ''DEEP_FLOW'' = flow_name (stressToFlowState 0.15)"
    using post preset
      flow_state_of_producers [where now = 100000 and write_ok = True and pid = 4242
        and parseFloat = Map.empty and toUpperCase = toUpperCase_ascii
        and data = "\<lparr>heart_rate = Some 65, hrv = None, source_field = None,
                      timestamp_field = None\<rparr>"
        and s = "\<lparr>stress_index = 0.3, flow_state = CALM, timestamp = 100000,
                   ttl_seconds = 300, daemon_pid = - 1, confidence = 0.6,
                   source = ''mobile_healthkit''\<rparr>"
        and options = "\<lparr>preset = Some ''deep-flow'', stress = None, flow = None\<rparr>"
        and obj = "[]"]
    by auto
  have flags: "toUpperCase_ascii ''calm'' \<in> set validStates"
    using sim_flags
      flow_state_of_producers [where now = 100000 and write_ok = True and pid = 4242
        and parseFloat = "[''0.3'' \<mapsto> 0.3]" and toUpperCase = toUpperCase_ascii
        and data = "\<lparr>heart_rate = Some 65, hrv = None, source_field = None,
                      timestamp_field = None\<rparr>"
        and s = "\<lparr>stress_index = 0.3, flow_state = CALM, timestamp = 100000,
                   ttl_seconds = 300, daemon_pid = - 1, confidence = 0.6,
                   source = ''mobile_healthkit''\<rparr>"
        and options = "\<lparr>preset = Some ''high-stress'', stress = Some ''0.3'',
                         flow = Some ''calm''\<rparr>"
        and obj = "[(''stress_index'', JNum 0.3), (''flow_state'', JStr ''CALM''),
            (''timestamp'', JNum 100000), (''ttl_seconds'', JNum 300),
            (''daemon_pid'', JNum 4242), (''confidence'', JNum 1),
            (''source'', JStr ''simulation'')]"]
    by auto
  have inherited: "simulate Map.empty toUpperCase_ascii 100000 4242
        \<lparr>preset = Some ''constructor'', stress = None, flow = None\<rparr>
     = Inr [(''timestamp'', JNum 100000), (''ttl_seconds'', JNum 300),
            (''daemon_pid'', JNum 4242), (''confidence'', JNum 1),
            (''source'', JStr ''simulation'')]"
    using names(1)
      flow_state_of_producers [where now = 100000 and write_ok = True and pid = 4242
        and parseFloat = Map.empty and toUpperCase = toUpperCase_ascii
        and data = "\<lparr>heart_rate = Some 65, hrv = None, source_field = None,
                      timestamp_field = None\<rparr>"
        and s = "\<lparr>stress_index = 0.3, flow_state = CALM, timestamp = 100000,
                   ttl_seconds = 300, daemon_pid = - 1, confidence = 0.6,
                   source = ''mobile_healthkit''\<rparr>"
        and options = "\<lparr>preset = Some ''constructor'', stress = None, flow = None\<rparr>"
        and obj = "[]"]
    by auto
  have unknown: "simulate Map.empty toUpperCase_ascii 100000 4242
        \<lparr>preset = Some ''relaxed'', stress = None, flow = None\<rparr> = Inl UnknownPreset"
    using names(2,3)
      flow_state_of_producers [where now = 100000 and write_ok = True and pid = 4242
        and parseFloat = Map.empty and toUpperCase = toUpperCase_ascii
        and data = "\<lparr>heart_rate = Some 65, hrv = None, source_field = None,
                      timestamp_field = None\<rparr>"
        and s = "\<lparr>stress_index = 0.3, flow_state = CALM, timestamp = 100000,
                   ttl_seconds = 300, daemon_pid = - 1, confidence = 0.6,
                   source = ''mobile_healthkit''\<rparr>"
        and options = "\<lparr>preset = Some ''relaxed'', stress = None, flow = None\<rparr>"
        and obj = "[]"]
    by auto
  show ?thesis
    using post sim sim_flags mobile_and_preset flags inherited unknown by blast
qed

section \<open>Normalisation of a sample\<close>

text \<open>
  C8, as the code has it. A sample with heart rate 95 bpm and no HRV value is normalised to
  stress index 0.75 (95 lies in the band below 100), confidence 0.6 and flow state STRESSED.
\<close>

theorem heart_rate_95:
  "snd (handleBiometricsPost now True
         \<lparr>heart_rate = Some 95, hrv = None, source_field = src, timestamp_field = ts\<rparr>)
     = Some \<lparr>stress_index = 0.75, flow_state = STRESSED, timestamp = or_int ts now,
              ttl_seconds = 300, daemon_pid = - 1, confidence = 0.6,
              source = or_str src ''mobile_healthkit''\<rparr>
   \<and> fst (handleBiometricsPost now True
         \<lparr>heart_rate = Some 95, hrv = None, source_field = src, timestamp_field = ts\<rparr>)
     = Updated 0.75 STRESSED (or_str src ''mobile_healthkit'')
   \<and> heartRateToStress 95 = 0.75
   \<and> stressToFlowState 0.75 = STRESSED"
  by (simp add: handleBiometricsPost_def truthy_num_def heartRateToStress_def
      stressToFlowState_def Math_round_def Let_def)

text \<open>C8, as stated, fails: the stress index of that sample is 0.75, not 0.9.\<close>

theorem heart_rate_95_counterexample:
  "map_option stress_index
     (snd (handleBiometricsPost 100000 True
            \<lparr>heart_rate = Some 95, hrv = None, source_field = None, timestamp_field = None\<rparr>))
     = Some 0.75
   \<and> map_option stress_index
     (snd (handleBiometricsPost 100000 True
            \<lparr>heart_rate = Some 95, hrv = None, source_field = None, timestamp_field = None\<rparr>))
     \<noteq> Some 0.9"
  by (simp add: handleBiometricsPost_def truthy_num_def heartRateToStress_def
      stressToFlowState_def Math_round_def Let_def)

theorem heart_rate_95_witness:
  "snd (handleBiometricsPost 100000 True
         \<lparr>heart_rate = Some 95, hrv = None, source_field = None, timestamp_field = None\<rparr>)
     = Some \<lparr>stress_index = 0.75, flow_state = STRESSED, timestamp = 100000,
              ttl_seconds = 300, daemon_pid = - 1, confidence = 0.6,
              source = ''mobile_healthkit''\<rparr>"
  using heart_rate_95 [of 100000 None None]
  by (simp add: or_int_def or_str_def)

text \<open>
  C9 at the sample with HRV 0 and heart rate 70. The request is accepted, since the heart
  rate is truthy; the stress index 0.95 is computed from the HRV value (the heart rate would
  give 0.5), since the HRV field is defined; the confidence is 0.6, since the HRV value 0 is
  not truthy. An HRV-derived record thus carries the confidence of a heart-rate-derived one.
\<close>

theorem hrv_zero_confidence:
  "snd (handleBiometricsPost 100000 True
         \<lparr>heart_rate = Some 70, hrv = Some 0, source_field = None, timestamp_field = None\<rparr>)
     = Some \<lparr>stress_index = 0.95, flow_state = STRESSED, timestamp = 100000,
              ttl_seconds = 300, daemon_pid = - 1, confidence = 0.6,
              source = ''mobile_healthkit''\<rparr>
   \<and> hrvToStress 0 = 0.95
   \<and> heartRateToStress 70 = 0.5"
  by (simp add: handleBiometricsPost_def truthy_num_def hrvToStress_def heartRateToStress_def
      stressToFlowState_def Math_round_def or_int_def or_str_def Let_def)

section \<open>Mobile records under validation\<close>

text \<open>
  C10. Every record published by mobile ingestion has producer id -1. The Validator
  therefore replaces it with the default record at any time and whatever processes run, a
  fetch that finds it in the state file returns the default record, and the hook derives no
  directive and no note from it.
\<close>

theorem mobile_record_never_validates:
  assumes "snd (handleBiometricsPost posted write_ok data) = Some s"
  shows "daemon_pid s = - 1
         \<and> validateState now now' procs s = getDefaultState now'
         \<and> readBiometricState now now' procs
              \<lparr>socket_present = False, socket_outcome = any_outcome, file_present = True,
               file_outcome = FileText (Json s)\<rparr> = Inr (getDefaultState now')
         \<and> systemPrecepts (pre_process (validateState now now' procs s) ctx) =
              Some (case systemPrecepts ctx of None \<Rightarrow> [] | Some ps \<Rightarrow> ps)
         \<and> biometricNote (pre_process (validateState now now' procs s) ctx) = biometricNote ctx
         \<and> message_pre_process now now' procs
              \<lparr>socket_present = False, socket_outcome = any_outcome, file_present = True,
               file_outcome = FileText (Json s)\<rparr> ctx
            = Inr (pre_process (getDefaultState now') ctx)"
proof -
  have pid: "daemon_pid s = - 1"
    using handleBiometricsPost_published(4) [OF assms] .
  then have dead: "\<not> isDaemonAlive procs (daemon_pid s)"
    by (simp add: isDaemonAlive_def)
  then have default: "validateState now now' procs s = getDefaultState now'"
    by (simp add: validateState_def Let_def)
  have fetch: "readBiometricState now now' procs
              \<lparr>socket_present = False, socket_outcome = any_outcome, file_present = True,
               file_outcome = FileText (Json s)\<rparr> = Inr (getDefaultState now')"
    using default by (simp add: readBiometricState_def readFromSocket_def readFromFile_def)
  have hook: "message_pre_process now now' procs
              \<lparr>socket_present = False, socket_outcome = any_outcome, file_present = True,
               file_outcome = FileText (Json s)\<rparr> ctx
            = Inr (pre_process (getDefaultState now') ctx)"
    using fetch by (simp add: message_pre_process_def)
  have quiet: "\<not> confidence (getDefaultState now') > 0.5"
    by (simp add: getDefaultState_def)
  have precepts: "systemPrecepts (pre_process (getDefaultState now') ctx) =
              Some (case systemPrecepts ctx of None \<Rightarrow> [] | Some ps \<Rightarrow> ps)"
    using quiet pre_process_systemPrecepts [of "getDefaultState now'" ctx] by simp
  have note_kept: "biometricNote (pre_process (getDefaultState now') ctx) = biometricNote ctx"
    using quiet by (rule pre_process_note_unchanged)
  show ?thesis
    using pid default fetch hook precepts note_kept by simp
qed

text \<open>
  A sample with HRV 20 ms: stress index 0.95 at confidence 0.9 would fire the first rule,
  yet after validation, one second later and with process 4242 running, nothing is derived.
\<close>

theorem mobile_record_never_validates_witness:
  "snd (handleBiometricsPost 100000 True
         \<lparr>heart_rate = None, hrv = Some 20, source_field = None, timestamp_field = None\<rparr>)
     = Some \<lparr>stress_index = 0.95, flow_state = STRESSED, timestamp = 100000,
              ttl_seconds = 300, daemon_pid = - 1, confidence = 0.9,
              source = ''mobile_healthkit''\<rparr>
   \<and> validateState 101000 101001 {4242}
        \<lparr>stress_index = 0.95, flow_state = STRESSED, timestamp = 100000,
         ttl_seconds = 300, daemon_pid = - 1, confidence = 0.9,
         source = ''mobile_healthkit''\<rparr> = getDefaultState 101001
   \<and> systemPrecepts (pre_process (validateState 101000 101001 {4242}
        \<lparr>stress_index = 0.95, flow_state = STRESSED, timestamp = 100000,
         ttl_seconds = 300, daemon_pid = - 1, confidence = 0.9,
         source = ''mobile_healthkit''\<rparr>)
        \<lparr>biometrics = None, biometricNote = None, systemPrecepts = None\<rparr>) = Some []"
proof -
  have post: "snd (handleBiometricsPost 100000 True
         \<lparr>heart_rate = None, hrv = Some 20, source_field = None, timestamp_field = None\<rparr>)
     = Some \<lparr>stress_index = 0.95, flow_state = STRESSED, timestamp = 100000,
              ttl_seconds = 300, daemon_pid = - 1, confidence = 0.9,
              source = ''mobile_healthkit''\<rparr>"
    by (simp add: handleBiometricsPost_def truthy_num_def hrvToStress_def
        stressToFlowState_def Math_round_def or_int_def or_str_def Let_def)
  show ?thesis
    using post
      mobile_record_never_validates [OF post, where now = 101000 and now' = 101001
        and procs = "{4242}" and any_outcome = SockError
        and ctx = "\<lparr>biometrics = None, biometricNote = None, systemPrecepts = None\<rparr>"]
    by auto
qed

end
